theory Spec2Isabelle
  imports Complex_Main "HOL-Library.AList"
begin

section \<open>Player event emitter (core/server/extensions/playerFunctions/emit.ts)\<close>

text \<open>
  The module exports seventeen small functions. Each one receives a player and some
  arguments and hands an event to the host (\<^verbatim>\<open>alt.emitClient\<close>), writes a warning
  (\<^verbatim>\<open>alt.logWarning\<close>) or queues a closure for the next tick (\<^verbatim>\<open>alt.nextTick\<close>).
  The embedding threads a record \<open>world\<close> through every call; it holds what the host
  would have observed: the events sent, the warnings logged, the closures queued, the
  tick counter, the state of the random generator and the store of mutable objects.
\<close>

subsection \<open>JavaScript values\<close>

text \<open>
  \<open>number\<close> stands for the JavaScript number type. No function of the module computes
  with a number, they are only passed on, so the reals are taken as the carrier and a
  literal such as \<^verbatim>\<open>0.35\<close> denotes itself.
\<close>

type_synonym number = real

datatype jsval =
    JUndefined
  | JNull
  | JBool bool
  | JNum number
  | JStr string
  | JArr "jsval list"
  | JObj "(string \<times> jsval) list"
  | JEntity nat

text \<open>
  An object is a list of properties in insertion order. Objects that the caller passes
  by reference (\<^verbatim>\<open>Particle\<close>, \<^verbatim>\<open>ProgressBar\<close>, \<^verbatim>\<open>ISpinner\<close>, \<^verbatim>\<open>IErrorScreen\<close>,
  \<^verbatim>\<open>InputMenu\<close>, the elements of a task list) live in a store and are named by a
  reference, so that an assignment to a property is visible to the caller.
\<close>

type_synonym props = "(string \<times> jsval) list"
type_synonym ref = nat

text \<open>A parameter of type \<^verbatim>\<open>any\<close> is a primitive value or a reference to an object.\<close>

datatype any = Prim jsval | Obj ref

text \<open>Reading a property: a missing property reads as \<^verbatim>\<open>undefined\<close>.\<close>

definition get_prop :: "props \<Rightarrow> string \<Rightarrow> jsval" where
  "get_prop ps k = (case map_of ps k of None \<Rightarrow> JUndefined | Some v \<Rightarrow> v)"

text \<open>
  The operand of \<^verbatim>\<open>!\<close> is converted to a boolean: \<^verbatim>\<open>undefined\<close>, \<^verbatim>\<open>null\<close>,
  \<^verbatim>\<open>false\<close>, \<^verbatim>\<open>0\<close> and the empty string are false, every object is true
  (\<^verbatim>\<open>NaN\<close>, which is false as well, has no counterpart among the reals).
\<close>

fun truthy :: "jsval \<Rightarrow> bool" where
  "truthy JUndefined = False"
| "truthy JNull = False"
| "truthy (JBool b) = b"
| "truthy (JNum n) = (n \<noteq> 0)"
| "truthy (JStr s) = (s \<noteq> [])"
| "truthy (JArr xs) = True"
| "truthy (JObj ps) = True"
| "truthy (JEntity e) = True"

subsection \<open>Players, events and the host\<close>

text \<open>
  \<^verbatim>\<open>player.data.isDead\<close> is the only field of a player that the module reads. \<open>handle\<close>
  identifies the connected session the host sends to.
\<close>

record PlayerData =
  isDead :: bool

record Player =
  handle :: nat
  data :: PlayerData

text \<open>
  The event names are members of the enumerations \<^verbatim>\<open>SYSTEM_EVENTS\<close>,
  \<^verbatim>\<open>View_Events_Chat\<close> and \<^verbatim>\<open>View_Events_Input_Menu\<close>, declared outside this module.
  Only the members used here are listed.
\<close>

datatype event =
    PLAYER_EMIT_ANIMATION
  | PLAYER_EMIT_SCENARIO
  | META_SET
  | Chat_Append
  | PLAYER_EMIT_NOTIFICATION
  | PLAY_PARTICLE_EFFECT
  | PROGRESSBAR_CREATE
  | PROGRESSBAR_REMOVE
  | PLAYER_EMIT_SOUND_2D
  | PLAYER_EMIT_SOUND_3D
  | PLAYER_EMIT_FRONTEND_SOUND
  | PLAYER_EMIT_TASK_TIMELINE
  | Input_Menu_SetMenu
  | PLAYER_EMIT_SPINNER
  | PLAYER_EMIT_SPINNER_CLEAR
  | PLAYER_EMIT_ERROR_SCREEN
  | PLAYER_EMIT_ERROR_SCREEN_CLEAR

text \<open>One event as the transport saw it, tagged with the tick in which it was sent.\<close>

record emitted =
  at_tick :: nat
  to_player :: nat
  event_name :: event
  payload :: "jsval list"

text \<open>
  The only closure of the module is the arrow function of \<^verbatim>\<open>meta\<close>; it captures
  \<^verbatim>\<open>player\<close>, \<^verbatim>\<open>key\<close> and \<^verbatim>\<open>value\<close>.
\<close>

datatype callback = MetaSetCb (cb_player: Player) (cb_key: string) (cb_value: any)

record world =
  objs :: "ref \<Rightarrow> props"
  warnings :: "string list"
  sent :: "emitted list"
  pending :: "callback list"
  tick :: nat
  rng :: nat

text \<open>
  The helpers imported from other modules are parameters of the model:
  \<^verbatim>\<open>utility.getClosestPlayers\<close> (the spatial query), \<^verbatim>\<open>sha256Random\<close> (a hash of its
  argument and of a random draw; it takes the state of the generator and returns the
  next one) and the built-in \<^verbatim>\<open>JSON.stringify\<close>.
\<close>

record env =
  getClosestPlayers :: "Player \<Rightarrow> number \<Rightarrow> Player list"
  sha256Random :: "string \<Rightarrow> nat \<Rightarrow> string \<times> nat"
  JSON_stringify :: "jsval \<Rightarrow> string"

text \<open>
  The host serialises the arguments of \<^verbatim>\<open>alt.emitClient\<close> when it is called: an object
  goes out with the properties it has at that moment.
\<close>

definition serialize :: "world \<Rightarrow> ref \<Rightarrow> jsval" where
  "serialize w r = JObj (objs w r)"

fun serialize_any :: "world \<Rightarrow> any \<Rightarrow> jsval" where
  "serialize_any w (Prim v) = v"
| "serialize_any w (Obj r) = serialize w r"

definition emitClient :: "Player \<Rightarrow> event \<Rightarrow> jsval list \<Rightarrow> world \<Rightarrow> world" where
  "emitClient player ev as w =
     w\<lparr>sent := sent w @
          [\<lparr>at_tick = tick w, to_player = handle player, event_name = ev, payload = as\<rparr>]\<rparr>"

definition logWarning :: "string \<Rightarrow> world \<Rightarrow> world" where
  "logWarning msg w = w\<lparr>warnings := warnings w @ [msg]\<rparr>"

text \<open>
  Modelled from the spec: the host's scheduler, which is not part of the repository.
  A closure given to \<^verbatim>\<open>alt.nextTick\<close> is queued and runs in the next iteration of the
  host's single-threaded loop (``deferred to the next scheduling tick of the host's
  cooperative loop (not sent synchronously)'').
\<close>

definition nextTick :: "callback \<Rightarrow> world \<Rightarrow> world" where
  "nextTick cb w = w\<lparr>pending := pending w @ [cb]\<rparr>"

fun run_callback :: "callback \<Rightarrow> world \<Rightarrow> world" where
  "run_callback (MetaSetCb player key v) w =
     emitClient player META_SET [JStr key, serialize_any w v] w"

definition next_tick :: "world \<Rightarrow> world" where
  "next_tick w = fold run_callback (pending w) (w\<lparr>tick := Suc (tick w), pending := []\<rparr>)"

subsection \<open>The exported functions\<close>

text \<open>
  An optional parameter with a default (\<^verbatim>\<open>duration: number = -1\<close>) is an \<open>option\<close>:
  \<open>None\<close> is the omitted argument.
\<close>

definition animation ::
  "Player \<Rightarrow> string \<Rightarrow> string \<Rightarrow> number \<Rightarrow> number option \<Rightarrow> world \<Rightarrow> world" where
  "animation player dictionary name flags duration_arg w =
     (let duration = (case duration_arg of None \<Rightarrow> - 1 | Some d \<Rightarrow> d) in
      if isDead (data player) then
        logWarning (''[Athena] Cannot play '' @ dictionary @ ''@'' @ name @
                    '' while player is dead.'') w
      else
        emitClient player PLAYER_EMIT_ANIMATION
          [JStr dictionary, JStr name, JNum flags, JNum duration] w)"

definition scenario :: "Player \<Rightarrow> string \<Rightarrow> number \<Rightarrow> world \<Rightarrow> world" where
  "scenario player name duration w =
     (if isDead (data player) then w
      else emitClient player PLAYER_EMIT_SCENARIO [JStr name, JNum duration] w)"

definition meta :: "Player \<Rightarrow> string \<Rightarrow> any \<Rightarrow> world \<Rightarrow> world" where
  "meta player key v w = nextTick (MetaSetCb player key v) w"

definition message :: "Player \<Rightarrow> string \<Rightarrow> world \<Rightarrow> world" where
  "message player msg w = emitClient player Chat_Append [JStr msg] w"

definition notification :: "Player \<Rightarrow> string \<Rightarrow> world \<Rightarrow> world" where
  "notification player msg w = emitClient player PLAYER_EMIT_NOTIFICATION [JStr msg] w"

text \<open>
  The \<^verbatim>\<open>for\<close> loop of \<^verbatim>\<open>particle\<close>, by its index: it stops when \<open>i\<close> reaches the length
  of the list, so \<open>nearbyPlayers ! i\<close> is always in range.
\<close>

function particle_loop :: "Player list \<Rightarrow> ref \<Rightarrow> nat \<Rightarrow> world \<Rightarrow> world" where
  "particle_loop nearbyPlayers particle i w =
     (if i < length nearbyPlayers then
        particle_loop nearbyPlayers particle (Suc i)
          (emitClient (nearbyPlayers ! i) PLAY_PARTICLE_EFFECT [serialize w particle] w)
      else w)"
  by pat_completeness auto
termination
  by (relation "measure (\<lambda>(nearbyPlayers, particle, i, w). length nearbyPlayers - i)") auto

declare particle_loop.simps [simp del]

definition particle :: "env \<Rightarrow> Player \<Rightarrow> ref \<Rightarrow> bool option \<Rightarrow> world \<Rightarrow> world" where
  "particle E player particle_ref emitToNearbyPlayers_arg w =
     (let emitToNearbyPlayers =
            (case emitToNearbyPlayers_arg of None \<Rightarrow> False | Some b \<Rightarrow> b) in
      if \<not> emitToNearbyPlayers then
        emitClient player PLAY_PARTICLE_EFFECT [serialize w particle_ref] w
      else
        particle_loop (getClosestPlayers E player 10) particle_ref 0 w)"

text \<open>
  \<^verbatim>\<open>createProgressBar\<close> is the one function that assigns to a property of an argument.
  The string handed to \<^verbatim>\<open>sha256Random\<close> is computed from the object before the
  assignment; the object is serialised for the transport after it.
\<close>

definition createProgressBar :: "env \<Rightarrow> Player \<Rightarrow> ref \<Rightarrow> world \<Rightarrow> jsval \<times> world" where
  "createProgressBar E player progressbar w =
     (let w1 = (if \<not> truthy (get_prop (objs w progressbar) ''uid'') then
                  (case sha256Random E (JSON_stringify E (serialize w progressbar)) (rng w) of
                     (h, g) \<Rightarrow>
                       w\<lparr>objs := (objs w)
                            (progressbar := AList.update ''uid'' (JStr h) (objs w progressbar)),
                         rng := g\<rparr>)
                else w);
          w2 = emitClient player PROGRESSBAR_CREATE [serialize w1 progressbar] w1
      in (get_prop (objs w2 progressbar) ''uid'', w2))"

definition removeProgressBar :: "Player \<Rightarrow> string \<Rightarrow> world \<Rightarrow> world" where
  "removeProgressBar player uid w = emitClient player PROGRESSBAR_REMOVE [JStr uid] w"

definition sound2D :: "Player \<Rightarrow> string \<Rightarrow> number option \<Rightarrow> world \<Rightarrow> world" where
  "sound2D p audioName volume_arg w =
     (let volume = (case volume_arg of None \<Rightarrow> 0.35 | Some v \<Rightarrow> v) in
      emitClient p PLAYER_EMIT_SOUND_2D [JStr audioName, JNum volume] w)"

definition sound3D :: "Player \<Rightarrow> string \<Rightarrow> nat \<Rightarrow> world \<Rightarrow> world" where
  "sound3D p audioName target w =
     emitClient p PLAYER_EMIT_SOUND_3D [JEntity target, JStr audioName] w"

definition soundFrontend :: "Player \<Rightarrow> string \<Rightarrow> string \<Rightarrow> world \<Rightarrow> world" where
  "soundFrontend p audioName ref w =
     emitClient p PLAYER_EMIT_FRONTEND_SOUND [JStr audioName, JStr ref] w"

definition taskTimeline :: "Player \<Rightarrow> ref list \<Rightarrow> world \<Rightarrow> world" where
  "taskTimeline player tasks w =
     emitClient player PLAYER_EMIT_TASK_TIMELINE [JArr (map (serialize w) tasks)] w"

definition inputMenu :: "Player \<Rightarrow> ref \<Rightarrow> world \<Rightarrow> world" where
  "inputMenu player menu w = emitClient player Input_Menu_SetMenu [serialize w menu] w"

definition createSpinner :: "Player \<Rightarrow> ref \<Rightarrow> world \<Rightarrow> world" where
  "createSpinner player spinner w = emitClient player PLAYER_EMIT_SPINNER [serialize w spinner] w"

definition clearSpinner :: "Player \<Rightarrow> world \<Rightarrow> world" where
  "clearSpinner player w = emitClient player PLAYER_EMIT_SPINNER_CLEAR [] w"

definition createErrorScreen :: "Player \<Rightarrow> ref \<Rightarrow> world \<Rightarrow> world" where
  "createErrorScreen player screen w =
     emitClient player PLAYER_EMIT_ERROR_SCREEN [serialize w screen] w"

definition clearErrorScreen :: "Player \<Rightarrow> world \<Rightarrow> world" where
  "clearErrorScreen player w = emitClient player PLAYER_EMIT_ERROR_SCREEN_CLEAR [] w"

text \<open>
  The default export is an object literal with one member per function. A call through
  it is a value of \<open>call\<close>, and \<open>invoke\<close> dispatches on the member. A function
  declared \<^verbatim>\<open>void\<close> (or without \<^verbatim>\<open>return\<close>) returns \<^verbatim>\<open>undefined\<close>.
\<close>

datatype call =
    Animation string string number "number option"
  | Scenario string number
  | CreateProgressBar ref
  | CreateSpinner ref
  | ClearSpinner
  | CreateErrorScreen ref
  | ClearErrorScreen
  | InputMenu ref
  | Meta string any
  | Message string
  | Notification string
  | Particle ref "bool option"
  | RemoveProgressBar string
  | Sound2D string "number option"
  | Sound3D string nat
  | SoundFrontend string string
  | TaskTimeline "ref list"

fun invoke :: "env \<Rightarrow> Player \<Rightarrow> call \<Rightarrow> world \<Rightarrow> jsval \<times> world" where
  "invoke E p (Animation dictionary name flags duration) w =
     (JUndefined, animation p dictionary name flags duration w)"
| "invoke E p (Scenario name duration) w = (JUndefined, scenario p name duration w)"
| "invoke E p (CreateProgressBar progressbar) w = createProgressBar E p progressbar w"
| "invoke E p (CreateSpinner spinner) w = (JUndefined, createSpinner p spinner w)"
| "invoke E p ClearSpinner w = (JUndefined, clearSpinner p w)"
| "invoke E p (CreateErrorScreen screen) w = (JUndefined, createErrorScreen p screen w)"
| "invoke E p ClearErrorScreen w = (JUndefined, clearErrorScreen p w)"
| "invoke E p (InputMenu menu) w = (JUndefined, inputMenu p menu w)"
| "invoke E p (Meta key v) w = (JUndefined, meta p key v w)"
| "invoke E p (Message msg) w = (JUndefined, message p msg w)"
| "invoke E p (Notification msg) w = (JUndefined, notification p msg w)"
| "invoke E p (Particle particle_ref emitToNearbyPlayers) w =
     (JUndefined, particle E p particle_ref emitToNearbyPlayers w)"
| "invoke E p (RemoveProgressBar uid) w = (JUndefined, removeProgressBar p uid w)"
| "invoke E p (Sound2D audioName volume) w = (JUndefined, sound2D p audioName volume w)"
| "invoke E p (Sound3D audioName target) w = (JUndefined, sound3D p audioName target w)"
| "invoke E p (SoundFrontend audioName ref) w = (JUndefined, soundFrontend p audioName ref w)"
| "invoke E p (TaskTimeline tasks) w = (JUndefined, taskTimeline p tasks w)"

text \<open>
  Modelled from the spec: an execution of the host's single-threaded cooperative loop,
  which is not part of the repository. Within a tick the host runs calls of the
  exported functions one after the other; between two ticks it runs the queued
  closures.
\<close>

datatype action = Call Player call | Tick

fun step :: "env \<Rightarrow> action \<Rightarrow> world \<Rightarrow> world" where
  "step E (Call p c) w = snd (invoke E p c w)"
| "step E Tick w = next_tick w"

definition run :: "env \<Rightarrow> action list \<Rightarrow> world \<Rightarrow> world" where
  "run E steps w = fold (step E) steps w"

text \<open>The two members that look at \<^verbatim>\<open>player.data.isDead\<close>.\<close>

fun checks_dead :: "call \<Rightarrow> bool" where
  "checks_dead (Animation dictionary name flags duration) = True"
| "checks_dead (Scenario name duration) = True"
| "checks_dead c = False"

fun is_createProgressBar :: "call \<Rightarrow> bool" where
  "is_createProgressBar (CreateProgressBar progressbar) = True"
| "is_createProgressBar c = False"

text \<open>
  For the statement of the send counts: the number of events a call outside
  \<open>checks_dead\<close> hands to the transport before it returns, and the number it leaves
  to the next tick, read off the function bodies. Every call sends one event at once,
  except a particle with the broadcast flag set (one per player the query resolves)
  and \<open>meta\<close> (none at once, one queued).
\<close>

fun immediate_sends :: "env \<Rightarrow> Player \<Rightarrow> call \<Rightarrow> nat" where
  "immediate_sends E p (Particle particle_ref (Some True)) = length (getClosestPlayers E p 10)"
| "immediate_sends E p (Meta key v) = 0"
| "immediate_sends E p c = 1"

fun deferred_sends :: "call \<Rightarrow> nat" where
  "deferred_sends (Meta key v) = 1"
| "deferred_sends c = 0"

subsection \<open>Concrete inputs\<close>

text \<open>
  A living and a dead player, a second living player nearby, a store with a particle
  (reference 1), a progress bar without identifier (2), one with the identifier
  \<^verbatim>\<open>bar-7\<close> (3) and one whose identifier is the empty string (4), and stand-ins for the
  imported helpers: the query resolves the caller and the neighbour, the generator
  returns a non-empty string made from its argument and steps the random state.
\<close>

definition alive_player :: Player where
  "alive_player = \<lparr>handle = 1, data = \<lparr>isDead = False\<rparr>\<rparr>"

definition dead_player :: Player where
  "dead_player = \<lparr>handle = 1, data = \<lparr>isDead = True\<rparr>\<rparr>"

definition neighbour :: Player where
  "neighbour = \<lparr>handle = 2, data = \<lparr>isDead = False\<rparr>\<rparr>"

definition example_objs :: "ref \<Rightarrow> props" where
  "example_objs =
     (\<lambda>r. [])
       (1 := [(''dict'', JStr ''core''), (''name'', JStr ''ent_dst_rocks''), (''duration'', JNum 500)],
        2 := [(''milliseconds'', JNum 5000), (''text'', JStr ''Loading'')],
        3 := [(''uid'', JStr ''bar-7''), (''milliseconds'', JNum 5000)],
        4 := [(''uid'', JStr []), (''milliseconds'', JNum 5000)])"

definition example_world :: world where
  "example_world =
     \<lparr>objs = example_objs, warnings = [], sent = [], pending = [], tick = 7, rng = 0\<rparr>"

definition example_env :: env where
  "example_env =
     \<lparr>getClosestPlayers = (\<lambda>p d. [p, neighbour]),
      sha256Random = (\<lambda>s g. (''h'' @ s, Suc g)),
      JSON_stringify = (\<lambda>v. ''{}'')\<rparr>"

section \<open>Properties\<close>

subsection \<open>The host primitives and the loop\<close>

text \<open>
  The loop sends one event for each player of the list from index \<open>i\<close> on, in the
  order of the list, and changes nothing else. The proof follows the loop itself.
\<close>

lemma particle_loop_eq:
  "particle_loop ps r i w =
     w\<lparr>sent := sent w @
          map (\<lambda>q. \<lparr>at_tick = tick w, to_player = handle q,
                    event_name = PLAY_PARTICLE_EFFECT, payload = [JObj (objs w r)]\<rparr>)
              (drop i ps)\<rparr>"
proof (induction ps r i w rule: particle_loop.induct)
  case (1 ps r i w)
  show ?case
  proof (cases "i < length ps")
    case True
    then have d: "drop i ps = ps ! i # drop (Suc i) ps"
      by (simp add: Cons_nth_drop_Suc)
    show ?thesis
      using True "1.IH" [OF True]
      by (subst particle_loop.simps) (simp add: d emitClient_def serialize_def)
  next
    case False
    then show ?thesis by (subst particle_loop.simps) simp
  qed
qed

text \<open>Sending, queueing and the tick do not touch the store, so they do not change how
  a value is serialised.\<close>

lemma serialize_any_update:
  "serialize_any (w\<lparr>sent := s\<rparr>) v = serialize_any w v"
  "serialize_any (w\<lparr>tick := t\<rparr>) v = serialize_any w v"
  "serialize_any (w\<lparr>pending := q\<rparr>) v = serialize_any w v"
  by (cases v; simp add: serialize_def)+

text \<open>Running the queued closures sends one \<open>META_SET\<close> event per closure, in the order
  in which they were queued.\<close>

lemma fold_run_callback_eq:
  "fold run_callback cbs w =
     w\<lparr>sent := sent w @
          map (\<lambda>cb. \<lparr>at_tick = tick w, to_player = handle (cb_player cb),
                     event_name = META_SET,
                     payload = [JStr (cb_key cb), serialize_any w (cb_value cb)]\<rparr>) cbs\<rparr>"
proof (induction cbs arbitrary: w)
  case Nil
  show ?case by simp
next
  case (Cons cb cbs)
  show ?case
    by (cases cb) (simp add: Cons.IH emitClient_def serialize_any_update)
qed

lemma next_tick_eq:
  "next_tick w =
     w\<lparr>tick := Suc (tick w), pending := [],
       sent := sent w @
          map (\<lambda>cb. \<lparr>at_tick = Suc (tick w), to_player = handle (cb_player cb),
                     event_name = META_SET,
                     payload = [JStr (cb_key cb), serialize_any w (cb_value cb)]\<rparr>)
              (pending w)\<rparr>"
  by (simp add: next_tick_def fold_run_callback_eq serialize_any_update)

text \<open>
  No exported function sends \<open>META_SET\<close> before it returns, and none moves the tick.
  Along an execution the events already sent stay where they are, and every
  \<open>META_SET\<close> event that is added carries a tick after the one the execution
  started in.
\<close>

lemma invoke_sent_shape:
  "tick (snd (invoke E p c w)) = tick w
   \<and> sent (snd (invoke E p c w)) = sent w @ drop (length (sent w)) (sent (snd (invoke E p c w)))
   \<and> (\<forall>e \<in> set (drop (length (sent w)) (sent (snd (invoke E p c w)))).
         event_name e \<noteq> META_SET)"
proof (cases c)
  case (Particle r b)
  then show ?thesis
    by (cases b) (auto simp: particle_def particle_loop_eq emitClient_def)
next
  case (CreateProgressBar r)
  then show ?thesis
    by (simp add: createProgressBar_def emitClient_def Let_def split: prod.split)
qed (simp_all add: animation_def scenario_def meta_def message_def notification_def
      removeProgressBar_def sound2D_def sound3D_def soundFrontend_def taskTimeline_def
      inputMenu_def createSpinner_def clearSpinner_def createErrorScreen_def
      clearErrorScreen_def emitClient_def logWarning_def nextTick_def Let_def)

lemma step_sent_shape:
  "tick w \<le> tick (step E s w)
   \<and> sent (step E s w) = sent w @ drop (length (sent w)) (sent (step E s w))
   \<and> (\<forall>e \<in> set (drop (length (sent w)) (sent (step E s w))).
         event_name e = META_SET \<longrightarrow> tick w < at_tick e)"
proof (cases s)
  case (Call p c)
  then show ?thesis using invoke_sent_shape [of E p c w] by auto
next
  case Tick
  then show ?thesis by (auto simp: next_tick_eq)
qed

lemma run_sent_shape:
  "tick w \<le> tick (run E steps w)
   \<and> sent (run E steps w) = sent w @ drop (length (sent w)) (sent (run E steps w))
   \<and> (\<forall>e \<in> set (drop (length (sent w)) (sent (run E steps w))).
         event_name e = META_SET \<longrightarrow> tick w < at_tick e)"
proof (induction steps arbitrary: w)
  case Nil
  show ?case by (simp add: run_def)
next
  case (Cons s steps)
  let ?w1 = "step E s w"
  let ?w2 = "run E steps ?w1"
  have r: "run E (s # steps) w = ?w2" by (simp add: run_def)
  from step_sent_shape [of w E s] obtain n1 where
    t1: "tick w \<le> tick ?w1" and s1: "sent ?w1 = sent w @ n1"
    and m1: "\<forall>e \<in> set n1. event_name e = META_SET \<longrightarrow> tick w < at_tick e"
    by blast
  from Cons.IH [of ?w1] obtain n2 where
    t2: "tick ?w1 \<le> tick ?w2" and s2: "sent ?w2 = sent ?w1 @ n2"
    and m2: "\<forall>e \<in> set n2. event_name e = META_SET \<longrightarrow> tick ?w1 < at_tick e"
    by blast
  have s: "sent ?w2 = sent w @ (n1 @ n2)" using s1 s2 by simp
  then have d: "drop (length (sent w)) (sent ?w2) = n1 @ n2" by simp
  have "\<forall>e \<in> set (n1 @ n2). event_name e = META_SET \<longrightarrow> tick w < at_tick e"
    using m1 m2 t1 by auto
  with t1 t2 s d show ?case unfolding r by simp
qed

text \<open>
  Outside \<open>animation\<close> and \<open>scenario\<close> the player is used for its handle only, and as
  the argument of the spatial query when a particle is broadcast.
\<close>

lemma map_handle_events:
  "map (\<lambda>q. \<lparr>at_tick = t, to_player = handle q, event_name = ev, payload = as\<rparr>) ps =
   map (\<lambda>h. \<lparr>at_tick = t, to_player = h, event_name = ev, payload = as\<rparr>) (map handle ps)"
  by simp

lemma invoke_ignores_isDead:
  assumes "\<not> checks_dead c"
      and "(\<exists>r. c = Particle r (Some True)) \<longrightarrow>
             map handle (getClosestPlayers E (p\<lparr>data := d\<rparr>) 10) =
             map handle (getClosestPlayers E p 10)"
  shows "fst (invoke E (p\<lparr>data := d\<rparr>) c w) = fst (invoke E p c w)
       \<and> sent (snd (invoke E (p\<lparr>data := d\<rparr>) c w)) = sent (snd (invoke E p c w))
       \<and> warnings (snd (invoke E (p\<lparr>data := d\<rparr>) c w)) = warnings (snd (invoke E p c w))
       \<and> objs (snd (invoke E (p\<lparr>data := d\<rparr>) c w)) = objs (snd (invoke E p c w))
       \<and> sent (next_tick (snd (invoke E (p\<lparr>data := d\<rparr>) c w))) =
           sent (next_tick (snd (invoke E p c w)))"
proof (cases c)
  case (Particle r b)
  show ?thesis
  proof (cases "b = Some True")
    case True
    with Particle assms(2)
    have "map handle (getClosestPlayers E (p\<lparr>data := d\<rparr>) 10) =
          map handle (getClosestPlayers E p 10)"
      by blast
    with Particle True show ?thesis
      by (simp add: particle_def particle_loop_eq next_tick_eq serialize_any_update
            map_handle_events [of _ _ _ "getClosestPlayers E p 10"]
            map_handle_events [of _ _ _ "getClosestPlayers E (p\<lparr>data := d\<rparr>) 10"]
          del: map_map)
  next
    case False
    with Particle show ?thesis
      by (cases b) (simp_all add: particle_def emitClient_def next_tick_eq serialize_any_update)
  qed
next
  case (CreateProgressBar r)
  then show ?thesis
    by (simp add: createProgressBar_def emitClient_def next_tick_eq Let_def split: prod.split)
next
  case (Meta k v)
  then show ?thesis
    by (simp add: meta_def nextTick_def next_tick_eq serialize_any_update)
qed (use assms(1) in \<open>simp_all add: message_def notification_def
      removeProgressBar_def sound2D_def sound3D_def soundFrontend_def taskTimeline_def
      inputMenu_def createSpinner_def clearSpinner_def createErrorScreen_def
      clearErrorScreen_def emitClient_def next_tick_eq serialize_any_update Let_def\<close>)

lemma invoke_send_count:
  assumes "\<not> checks_dead c"
  shows "length (sent (snd (invoke E p c w))) = length (sent w) + immediate_sends E p c"
proof (cases c)
  case (Particle r b)
  show ?thesis
  proof (cases "b = Some True")
    case True
    with Particle show ?thesis by (simp add: particle_def particle_loop_eq)
  next
    case False
    then have "b = None \<or> b = Some False" by (cases b) auto
    with Particle show ?thesis by (auto simp: particle_def emitClient_def)
  qed
next
  case (CreateProgressBar r)
  then show ?thesis
    by (simp add: createProgressBar_def emitClient_def Let_def split: prod.split)
qed (use assms in \<open>simp_all add: meta_def nextTick_def message_def notification_def
      removeProgressBar_def sound2D_def sound3D_def soundFrontend_def taskTimeline_def
      inputMenu_def createSpinner_def clearSpinner_def createErrorScreen_def
      clearErrorScreen_def emitClient_def Let_def\<close>)

lemma invoke_deferred_count:
  assumes "\<not> checks_dead c"
  shows "length (sent (next_tick (snd (invoke E p c w)))) =
           length (sent (next_tick w)) + immediate_sends E p c + deferred_sends c"
proof (cases c)
  case (Particle r b)
  show ?thesis
  proof (cases "b = Some True")
    case True
    with Particle show ?thesis by (simp add: particle_def particle_loop_eq next_tick_eq)
  next
    case False
    then have "b = None \<or> b = Some False" by (cases b) auto
    with Particle show ?thesis by (auto simp: particle_def emitClient_def next_tick_eq)
  qed
next
  case (CreateProgressBar r)
  then show ?thesis
    by (simp add: createProgressBar_def emitClient_def next_tick_eq Let_def split: prod.split)
qed (use assms in \<open>simp_all add: meta_def nextTick_def message_def notification_def
      removeProgressBar_def sound2D_def sound3D_def soundFrontend_def taskTimeline_def
      inputMenu_def createSpinner_def clearSpinner_def createErrorScreen_def
      clearErrorScreen_def emitClient_def next_tick_eq Let_def\<close>)

text \<open>The store of objects is written by \<open>createProgressBar\<close> alone.\<close>

lemma invoke_objs_frame:
  assumes "\<not> is_createProgressBar c"
  shows "objs (snd (invoke E p c w)) = objs w"
proof (cases c)
  case (Particle r b)
  then show ?thesis
    by (cases b) (simp_all add: particle_def particle_loop_eq emitClient_def)
qed (use assms in \<open>simp_all add: animation_def scenario_def meta_def nextTick_def message_def
      notification_def logWarning_def
      removeProgressBar_def sound2D_def sound3D_def soundFrontend_def taskTimeline_def
      inputMenu_def createSpinner_def clearSpinner_def createErrorScreen_def
      clearErrorScreen_def emitClient_def Let_def\<close>)

lemma map_of_update_other:
  "k \<noteq> k' \<Longrightarrow> map_of (AList.update k' v ps) k = map_of ps k"
  by (simp add: update_conv')

text \<open>
  Two progress bars with the same content and no identifier, created one after the
  other: both identifiers come from the generator applied to the same string, the
  second with the random state the first call left behind. Whether they differ is
  decided by the generator alone.
\<close>

lemma createProgressBar_twice_same_content:
  assumes "r1 \<noteq> r2" and "objs w r2 = objs w r1"
      and "\<not> truthy (get_prop (objs w r1) ''uid'')"
  shows "fst (createProgressBar E p r1 w) =
           JStr (fst (sha256Random E (JSON_stringify E (JObj (objs w r1))) (rng w)))
       \<and> fst (createProgressBar E p r2 (snd (createProgressBar E p r1 w))) =
           JStr (fst (sha256Random E (JSON_stringify E (JObj (objs w r1)))
                        (snd (sha256Random E (JSON_stringify E (JObj (objs w r1))) (rng w)))))"
proof -
  obtain h g where hg: "sha256Random E (JSON_stringify E (JObj (objs w r1))) (rng w) = (h, g)"
    by (cases "sha256Random E (JSON_stringify E (JObj (objs w r1))) (rng w)")
  obtain h' g' where hg': "sha256Random E (JSON_stringify E (JObj (objs w r1))) g = (h', g')"
    by (cases "sha256Random E (JSON_stringify E (JObj (objs w r1))) g")
  show ?thesis
    using assms
    by (simp add: createProgressBar_def emitClient_def serialize_def get_prop_def hg hg'
          update_conv')
qed

subsection \<open>Death of the player: animation and scenario\<close>

text \<open>
  C1. For a player whose data marks them dead, \<open>animation\<close> sends nothing and logs
  exactly one warning, and \<open>scenario\<close> sends nothing and logs nothing, whatever the
  other arguments are.
\<close>

theorem dead_player_animation_warns_scenario_silent:
  assumes "isDead (data player)"
  shows "sent (animation player dictionary name flags duration w) = sent w
       \<and> pending (animation player dictionary name flags duration w) = pending w
       \<and> warnings (animation player dictionary name flags duration w) =
           warnings w @ [''[Athena] Cannot play '' @ dictionary @ ''@'' @ name @
                         '' while player is dead.'']
       \<and> length (warnings (animation player dictionary name flags duration w)) =
           Suc (length (warnings w))
       \<and> scenario player name' duration' w = w"
  using assms by (simp add: animation_def scenario_def logWarning_def Let_def)

theorem dead_player_animation_warns_scenario_silent_witness:
  "isDead (data dead_player)
   \<and> sent (animation dead_player ''amb@world_human_smoking'' ''idle_a'' 1 None example_world) = []
   \<and> warnings (animation dead_player ''amb@world_human_smoking'' ''idle_a'' 1 None example_world) =
       [''[Athena] Cannot play amb@world_human_smoking@idle_a while player is dead.'']
   \<and> scenario dead_player ''WORLD_HUMAN_SMOKING'' 3000 example_world = example_world"
  using dead_player_animation_warns_scenario_silent
          [of dead_player "''amb@world_human_smoking''" "''idle_a''" 1 None example_world
              "''WORLD_HUMAN_SMOKING''" 3000]
  by (simp add: dead_player_def example_world_def)

text \<open>
  C8. On a player who is not dead, \<open>animation\<close> sends one event that carries the
  dictionary, the name, the flags and the duration as given; an omitted duration
  goes out as \<open>-1\<close> (play once).
\<close>

theorem animation_alive_forwards:
  assumes "\<not> isDead (data player)"
  shows "animation player dictionary name flags (Some duration) w =
           w\<lparr>sent := sent w @
                [\<lparr>at_tick = tick w, to_player = handle player,
                  event_name = PLAYER_EMIT_ANIMATION,
                  payload = [JStr dictionary, JStr name, JNum flags, JNum duration]\<rparr>]\<rparr>
       \<and> animation player dictionary name flags None w =
           w\<lparr>sent := sent w @
                [\<lparr>at_tick = tick w, to_player = handle player,
                  event_name = PLAYER_EMIT_ANIMATION,
                  payload = [JStr dictionary, JStr name, JNum flags, JNum (- 1)]\<rparr>]\<rparr>"
  using assms by (simp add: animation_def emitClient_def)

theorem animation_alive_forwards_witness:
  "\<not> isDead (data alive_player)
   \<and> sent (animation alive_player ''amb@world_human_smoking'' ''idle_a'' 1 (Some 2500)
             example_world) =
       [\<lparr>at_tick = 7, to_player = 1, event_name = PLAYER_EMIT_ANIMATION,
         payload = [JStr ''amb@world_human_smoking'', JStr ''idle_a'', JNum 1, JNum 2500]\<rparr>]
   \<and> sent (animation alive_player ''amb@world_human_smoking'' ''idle_a'' 1 None
             example_world) =
       [\<lparr>at_tick = 7, to_player = 1, event_name = PLAYER_EMIT_ANIMATION,
         payload = [JStr ''amb@world_human_smoking'', JStr ''idle_a'', JNum 1, JNum (- 1)]\<rparr>]"
  using animation_alive_forwards
          [of alive_player "''amb@world_human_smoking''" "''idle_a''" 1 2500 example_world]
  by (simp add: alive_player_def example_world_def)

subsection \<open>Particles\<close>

text \<open>
  C4. With the broadcast flag set, \<open>particle\<close> queries the players within 10 units of
  the caller and sends exactly one event per resolved player, in the order of the
  result, each with the particle as it was passed in: N players give N sends.
\<close>

theorem particle_broadcast_one_send_per_nearby_player:
  "particle E player r (Some True) w =
     w\<lparr>sent := sent w @
          map (\<lambda>q. \<lparr>at_tick = tick w, to_player = handle q,
                    event_name = PLAY_PARTICLE_EFFECT, payload = [serialize w r]\<rparr>)
              (getClosestPlayers E player 10)\<rparr>
   \<and> length (sent (particle E player r (Some True) w)) =
       length (sent w) + length (getClosestPlayers E player 10)"
  by (simp add: particle_def particle_loop_eq serialize_def)

text \<open>
  C5. With the broadcast flag false or omitted, \<open>particle\<close> sends exactly one event,
  to the caller; the spatial query plays no part.
\<close>

theorem particle_direct_single_send:
  "particle E player r None w =
     w\<lparr>sent := sent w @
          [\<lparr>at_tick = tick w, to_player = handle player,
            event_name = PLAY_PARTICLE_EFFECT, payload = [serialize w r]\<rparr>]\<rparr>
   \<and> particle E player r (Some False) w = particle E player r None w
   \<and> particle E' player r None w = particle E player r None w
   \<and> length (sent (particle E player r None w)) = Suc (length (sent w))"
  by (simp add: particle_def emitClient_def)

subsection \<open>Sounds\<close>

text \<open>
  C7. \<open>sound2D\<close> without a volume sends the sound's name with the volume 0.35; a
  volume that is given goes out unchanged.
\<close>

theorem sound2D_default_volume:
  "sound2D p audioName None w =
     w\<lparr>sent := sent w @
          [\<lparr>at_tick = tick w, to_player = handle p, event_name = PLAYER_EMIT_SOUND_2D,
            payload = [JStr audioName, JNum 0.35]\<rparr>]\<rparr>
   \<and> sound2D p audioName (Some volume) w =
     w\<lparr>sent := sent w @
          [\<lparr>at_tick = tick w, to_player = handle p, event_name = PLAYER_EMIT_SOUND_2D,
            payload = [JStr audioName, JNum volume]\<rparr>]\<rparr>"
  by (simp add: sound2D_def emitClient_def)

subsection \<open>Metadata\<close>

text \<open>
  C6. \<open>meta\<close> sends nothing before it returns: it queues a closure. The next tick runs
  the closure, which sends the key and the value tagged with the following tick. In
  every execution that continues from the call (further calls and ticks in any order),
  each \<open>META_SET\<close> event added to the log carries a tick strictly greater than the tick
  in which the call was issued.
\<close>

theorem meta_deferred_to_next_tick:
  "sent (meta player key v w) = sent w
   \<and> tick (meta player key v w) = tick w
   \<and> pending (meta player key v w) = pending w @ [MetaSetCb player key v]
   \<and> sent (next_tick (meta player key v w)) =
       sent (next_tick w) @
         [\<lparr>at_tick = Suc (tick w), to_player = handle player, event_name = META_SET,
           payload = [JStr key, serialize_any w v]\<rparr>]
   \<and> (\<forall>e \<in> set (drop (length (sent w)) (sent (run E steps (meta player key v w)))).
         event_name e = META_SET \<longrightarrow> tick w < at_tick e)"
proof -
  have a: "sent (meta player key v w) = sent w" "tick (meta player key v w) = tick w"
    by (simp_all add: meta_def nextTick_def)
  have b: "pending (meta player key v w) = pending w @ [MetaSetCb player key v]"
    by (simp add: meta_def nextTick_def)
  have c: "sent (next_tick (meta player key v w)) =
       sent (next_tick w) @
         [\<lparr>at_tick = Suc (tick w), to_player = handle player, event_name = META_SET,
           payload = [JStr key, serialize_any w v]\<rparr>]"
    by (simp add: meta_def nextTick_def next_tick_eq serialize_any_update)
  have d: "\<forall>e \<in> set (drop (length (sent w)) (sent (run E steps (meta player key v w)))).
         event_name e = META_SET \<longrightarrow> tick w < at_tick e"
    using run_sent_shape [of "meta player key v w" E steps] by (simp only: a) blast
  from a b c d show ?thesis by blast
qed

theorem meta_deferred_to_next_tick_witness:
  "sent (meta alive_player ''job'' (Prim (JStr ''medic'')) example_world) = []
   \<and> sent (run example_env [Call alive_player (Notification ''hired''), Tick]
             (meta alive_player ''job'' (Prim (JStr ''medic'')) example_world)) =
       [\<lparr>at_tick = 7, to_player = 1, event_name = PLAYER_EMIT_NOTIFICATION,
         payload = [JStr ''hired'']\<rparr>,
        \<lparr>at_tick = 8, to_player = 1, event_name = META_SET,
         payload = [JStr ''job'', JStr ''medic'']\<rparr>]
   \<and> tick example_world <
       at_tick (last (sent (run example_env [Call alive_player (Notification ''hired''), Tick]
                             (meta alive_player ''job'' (Prim (JStr ''medic'')) example_world))))"
  using meta_deferred_to_next_tick
          [where player = alive_player and key = "''job''" and v = "Prim (JStr ''medic'')"
             and w = example_world and E = example_env
             and steps = "[Call alive_player (Notification ''hired''), Tick]"]
  by (simp add: run_def meta_def nextTick_def notification_def emitClient_def next_tick_def
        alive_player_def example_world_def)

subsection \<open>Progress bars\<close>

text \<open>
  C2, as amended. For every progress bar whose \<open>uid\<close> converts to true (for a string:
  is not empty), \<open>createProgressBar\<close> leaves the object as it is, sends it with that
  identifier and returns the identifier.
\<close>

theorem createProgressBar_keeps_identifier:
  assumes "truthy (get_prop (objs w r) ''uid'')"
  shows "createProgressBar E player r w =
           (get_prop (objs w r) ''uid'',
            w\<lparr>sent := sent w @
                 [\<lparr>at_tick = tick w, to_player = handle player,
                   event_name = PROGRESSBAR_CREATE, payload = [JObj (objs w r)]\<rparr>]\<rparr>)"
  using assms by (simp add: createProgressBar_def emitClient_def serialize_def)

theorem createProgressBar_keeps_identifier_witness:
  "truthy (get_prop (objs example_world 3) ''uid'')
   \<and> createProgressBar example_env alive_player 3 example_world =
       (JStr ''bar-7'',
        example_world\<lparr>sent :=
          [\<lparr>at_tick = 7, to_player = 1, event_name = PROGRESSBAR_CREATE,
            payload = [JObj [(''uid'', JStr ''bar-7''), (''milliseconds'', JNum 5000)]]\<rparr>]\<rparr>)"
  using createProgressBar_keeps_identifier
          [where w = example_world and r = 3 and E = example_env and player = alive_player]
  by (simp add: example_world_def example_objs_def get_prop_def alive_player_def)

text \<open>
  C2 as stated fails for a progress bar that carries the empty string as its \<open>uid\<close>:
  the test \<^verbatim>\<open>!progressbar.uid\<close> takes it for missing, so the identifier is replaced by
  a generated one, which is what the call returns.
\<close>

theorem createProgressBar_empty_identifier_replaced:
  "map_of (objs example_world 4) ''uid'' = Some (JStr [])
   \<and> fst (createProgressBar example_env alive_player 4 example_world) = JStr ''h{}''
   \<and> fst (createProgressBar example_env alive_player 4 example_world) \<noteq>
       get_prop (objs example_world 4) ''uid''
   \<and> objs (snd (createProgressBar example_env alive_player 4 example_world)) 4 =
       [(''uid'', JStr ''h{}''), (''milliseconds'', JNum 5000)]"
  by (simp add: createProgressBar_def emitClient_def serialize_def example_world_def
        example_objs_def example_env_def get_prop_def)

text \<open>
  C10. After \<open>createProgressBar\<close> the \<open>uid\<close> of the caller's object is the identifier
  returned. When the object had no identifier, the one generated from the object's
  content is written to it before the send, so the event carries the object with the
  new identifier. Every property other than \<open>uid\<close> and every other object is left as
  it was. No other exported function, and no queued closure, writes to an object.
\<close>

theorem createProgressBar_only_mutation:
  "get_prop (objs (snd (createProgressBar E player r w)) r) ''uid'' =
     fst (createProgressBar E player r w)
   \<and> (\<not> truthy (get_prop (objs w r) ''uid'') \<longrightarrow>
        fst (createProgressBar E player r w) =
          JStr (fst (sha256Random E (JSON_stringify E (JObj (objs w r))) (rng w)))
        \<and> sent (snd (createProgressBar E player r w)) =
            sent w @ [\<lparr>at_tick = tick w, to_player = handle player,
                       event_name = PROGRESSBAR_CREATE,
                       payload = [JObj (objs (snd (createProgressBar E player r w)) r)]\<rparr>])
   \<and> (\<forall>k. k \<noteq> ''uid'' \<longrightarrow>
          map_of (objs (snd (createProgressBar E player r w)) r) k = map_of (objs w r) k)
   \<and> (\<forall>r'. r' \<noteq> r \<longrightarrow> objs (snd (createProgressBar E player r w)) r' = objs w r')
   \<and> (\<forall>p c. \<not> is_createProgressBar c \<longrightarrow> objs (snd (invoke E p c w)) = objs w)
   \<and> objs (next_tick w) = objs w"
proof -
  obtain h g where hg: "sha256Random E (JSON_stringify E (JObj (objs w r))) (rng w) = (h, g)"
    by (cases "sha256Random E (JSON_stringify E (JObj (objs w r))) (rng w)")
  have a: "get_prop (objs (snd (createProgressBar E player r w)) r) ''uid'' =
     fst (createProgressBar E player r w)"
    by (simp add: createProgressBar_def Let_def)
  have b: "\<not> truthy (get_prop (objs w r) ''uid'') \<longrightarrow>
        fst (createProgressBar E player r w) =
          JStr (fst (sha256Random E (JSON_stringify E (JObj (objs w r))) (rng w)))
        \<and> sent (snd (createProgressBar E player r w)) =
            sent w @ [\<lparr>at_tick = tick w, to_player = handle player,
                       event_name = PROGRESSBAR_CREATE,
                       payload = [JObj (objs (snd (createProgressBar E player r w)) r)]\<rparr>]"
    by (simp add: createProgressBar_def emitClient_def serialize_def get_prop_def hg
          update_conv')
  have c: "\<forall>k. k \<noteq> ''uid'' \<longrightarrow>
          map_of (objs (snd (createProgressBar E player r w)) r) k = map_of (objs w r) k"
    by (simp add: createProgressBar_def emitClient_def serialize_def hg map_of_update_other)
  have d: "\<forall>r'. r' \<noteq> r \<longrightarrow> objs (snd (createProgressBar E player r w)) r' = objs w r'"
    by (simp add: createProgressBar_def emitClient_def serialize_def hg)
  have e: "\<forall>p c. \<not> is_createProgressBar c \<longrightarrow> objs (snd (invoke E p c w)) = objs w"
    by (simp add: invoke_objs_frame)
  have f: "objs (next_tick w) = objs w" by (simp add: next_tick_eq)
  from a b c d e f show ?thesis by blast
qed

theorem createProgressBar_only_mutation_witness:
  "\<not> truthy (get_prop (objs example_world 2) ''uid'')
   \<and> createProgressBar example_env alive_player 2 example_world =
       (JStr ''h{}'',
        example_world
          \<lparr>objs := example_objs
             (2 := [(''milliseconds'', JNum 5000), (''text'', JStr ''Loading''),
                    (''uid'', JStr ''h{}'')]),
           rng := 1,
           sent := [\<lparr>at_tick = 7, to_player = 1, event_name = PROGRESSBAR_CREATE,
                     payload = [JObj [(''milliseconds'', JNum 5000), (''text'', JStr ''Loading''),
                                      (''uid'', JStr ''h{}'')]]\<rparr>]\<rparr>)
   \<and> ''text'' \<noteq> ''uid''
   \<and> map_of (objs (snd (createProgressBar example_env alive_player 2 example_world)) 2) ''text'' =
       Some (JStr ''Loading'')
   \<and> (3::nat) \<noteq> 2
   \<and> objs (snd (createProgressBar example_env alive_player 2 example_world)) 3 =
       example_objs 3
   \<and> \<not> is_createProgressBar (Notification ''hired'')
   \<and> objs (snd (invoke example_env alive_player (Notification ''hired'') example_world)) =
       example_objs"
  using createProgressBar_only_mutation
          [where E = example_env and player = alive_player and r = 2 and w = example_world]
  by (simp add: createProgressBar_def emitClient_def serialize_def get_prop_def
        notification_def example_env_def alive_player_def example_world_def example_objs_def)

subsection \<open>The functions that do not look at the death of the player\<close>

text \<open>
  C9, as amended. For a call of any exported function other than \<open>animation\<close> and
  \<open>scenario\<close>, the value returned, the events sent, the warnings, the store and the
  events sent by the next tick are the same whatever the player's data say (for a
  particle that is broadcast: as long as the spatial query resolves the same
  sessions). The call sends exactly one event before it returns, except that a
  particle that is broadcast sends one event per resolved player and \<open>meta\<close> sends
  none before it returns and exactly one in the next tick.
\<close>

theorem other_operations_ignore_isDead:
  assumes "\<not> checks_dead c"
      and "(\<exists>r. c = Particle r (Some True)) \<longrightarrow>
             map handle (getClosestPlayers E (p\<lparr>data := d\<rparr>) 10) =
             map handle (getClosestPlayers E p 10)"
  shows "fst (invoke E (p\<lparr>data := d\<rparr>) c w) = fst (invoke E p c w)
       \<and> sent (snd (invoke E (p\<lparr>data := d\<rparr>) c w)) = sent (snd (invoke E p c w))
       \<and> warnings (snd (invoke E (p\<lparr>data := d\<rparr>) c w)) = warnings (snd (invoke E p c w))
       \<and> objs (snd (invoke E (p\<lparr>data := d\<rparr>) c w)) = objs (snd (invoke E p c w))
       \<and> sent (next_tick (snd (invoke E (p\<lparr>data := d\<rparr>) c w))) =
           sent (next_tick (snd (invoke E p c w)))
       \<and> length (sent (snd (invoke E p c w))) = length (sent w) + immediate_sends E p c
       \<and> length (sent (next_tick (snd (invoke E p c w)))) =
           length (sent (next_tick w)) + immediate_sends E p c + deferred_sends c"
  using invoke_ignores_isDead [OF assms] invoke_send_count [OF assms(1)]
        invoke_deferred_count [OF assms(1)]
  by blast

theorem other_operations_ignore_isDead_witness:
  "\<not> checks_dead (Particle 1 (Some True))
   \<and> dead_player = alive_player\<lparr>data := \<lparr>isDead = True\<rparr>\<rparr>
   \<and> map handle (getClosestPlayers example_env dead_player 10) =
       map handle (getClosestPlayers example_env alive_player 10)
   \<and> sent (snd (invoke example_env dead_player (Particle 1 (Some True)) example_world)) =
       sent (snd (invoke example_env alive_player (Particle 1 (Some True)) example_world))
   \<and> length (sent (snd (invoke example_env alive_player (Particle 1 (Some True))
                          example_world))) = 2"
  using other_operations_ignore_isDead
          [where c = "Particle 1 (Some True)" and E = example_env and p = alive_player
             and d = "\<lparr>isDead = True\<rparr>" and w = example_world]
  by (simp add: example_env_def alive_player_def dead_player_def example_world_def)

text \<open>
  C9 as stated fails for a particle that is broadcast: with two players in range the
  call sends two events, not one.
\<close>

theorem broadcast_particle_sends_twice:
  "\<not> checks_dead (Particle 1 (Some True))
   \<and> sent example_world = []
   \<and> sent (snd (invoke example_env alive_player (Particle 1 (Some True)) example_world)) =
       [\<lparr>at_tick = 7, to_player = 1, event_name = PLAY_PARTICLE_EFFECT,
         payload = [JObj [(''dict'', JStr ''core''), (''name'', JStr ''ent_dst_rocks''),
                          (''duration'', JNum 500)]]\<rparr>,
        \<lparr>at_tick = 7, to_player = 2, event_name = PLAY_PARTICLE_EFFECT,
         payload = [JObj [(''dict'', JStr ''core''), (''name'', JStr ''ent_dst_rocks''),
                          (''duration'', JNum 500)]]\<rparr>]
   \<and> length (sent (snd (invoke example_env alive_player (Particle 1 (Some True))
                          example_world))) \<noteq> Suc (length (sent example_world))"
  by (simp add: particle_def particle_loop_eq example_env_def alive_player_def neighbour_def
        example_world_def example_objs_def)

end
